theory Spec2Isabelle
  imports Complex_Main
begin

section \<open>Slice sampling (src/slice-sampling.cpp)\<close>

text \<open>
  The file embeds the slice-sampling engine \<open>slice_sample_cpp\<close> and the two batch
  drivers \<open>slice_sample_ma_liu\<close> and \<open>pcnbd_slice_sample\<close> together with the
  posteriors they pass to the engine.

  Conventions of the embedding:
  \<^item> a C++ \<open>double\<close> is a value of \<open>double\<close> below: NaN, the two infinities, or a
    finite real. Comparisons and the special values follow IEEE 754 (every comparison
    with NaN is false); arithmetic on finite values is exact, so rounding, overflow to
    infinity and the sign of zero are not represented;
  \<^item> an Rcpp \<open>NumericVector\<close> is a handle: the state holds a heap from addresses to
    vector contents, \<open>clone\<close> and \<open>NumericVector::create\<close> allocate, and \<open>v[j] = e\<close>
    updates the heap at the handle's address;
  \<^item> the random source is a pair of streams (unit uniforms and unit exponentials) read
    at a counter kept in the state;
  \<^item> the two stepping-out loops and the shrinkage loop have no bound in the source; each
    takes a fuel: the number of times its back edge may be taken. A run that needs more
    ends in \<open>OutOfFuel\<close>, which carries the state reached so far;
  \<^item> the state carries a trace of observations (the points at which the log-density is
    called, the interval at the head of each shrinkage iteration, each rejected and each
    accepted draw). The trace is never read by the program.
\<close>

subsection \<open>Doubles\<close>

datatype double = NaN | NegInf | Fin real | PosInf

definition R_FINITE :: "double \<Rightarrow> bool" where
  "R_FINITE a = (case a of Fin _ \<Rightarrow> True | _ \<Rightarrow> False)"

text \<open>The sign of a double that is not NaN, as \<open>-1\<close>, \<open>0\<close> or \<open>1\<close>.\<close>

fun dsign :: "double \<Rightarrow> int" where
  "dsign (Fin a) = (if a < 0 then - 1 else if a = 0 then 0 else 1)"
| "dsign NegInf = - 1"
| "dsign _ = 1"

definition signed_inf :: "int \<Rightarrow> double" where
  "signed_inf sg = (if sg = 0 then NaN else if sg < 0 then NegInf else PosInf)"

text \<open>
  The operators \<open>+\<close>, \<open>-\<close>, \<open>*\<close>, \<open>/\<close>, \<open><\<close> and \<open><=\<close> of C++ on doubles (\<open>a > b\<close> is
  written \<open>b < a\<close> by Isabelle). With NaN the comparisons do not form an order, so only the
  syntactic classes are instantiated. In IEEE 754 the sign of a nonzero value divided by
  zero also depends on the sign of the zero; zero is taken as positive here.
\<close>

instantiation double :: "{plus, uminus, minus, times, inverse, ord}"
begin

fun plus_double :: "double \<Rightarrow> double \<Rightarrow> double" where
  "plus_double (Fin a) (Fin b) = Fin (a + b)"
| "plus_double NaN _ = NaN"
| "plus_double _ NaN = NaN"
| "plus_double PosInf NegInf = NaN"
| "plus_double NegInf PosInf = NaN"
| "plus_double PosInf _ = PosInf"
| "plus_double NegInf _ = NegInf"
| "plus_double (Fin a) b = b"

fun uminus_double :: "double \<Rightarrow> double" where
  "uminus_double NaN = NaN"
| "uminus_double NegInf = PosInf"
| "uminus_double (Fin a) = Fin (- a)"
| "uminus_double PosInf = NegInf"

definition minus_double :: "double \<Rightarrow> double \<Rightarrow> double" where
  "minus_double a b = a + (- b)"

fun times_double :: "double \<Rightarrow> double \<Rightarrow> double" where
  "times_double (Fin a) (Fin b) = Fin (a * b)"
| "times_double NaN _ = NaN"
| "times_double _ NaN = NaN"
| "times_double a b = signed_inf (dsign a * dsign b)"

fun divide_double :: "double \<Rightarrow> double \<Rightarrow> double" where
  "divide_double (Fin a) (Fin b) = (if b = 0 then signed_inf (dsign (Fin a)) else Fin (a / b))"
| "divide_double NaN _ = NaN"
| "divide_double _ NaN = NaN"
| "divide_double (Fin a) _ = Fin 0"
| "divide_double a (Fin b) = signed_inf (dsign a * (if b < 0 then - 1 else 1))"
| "divide_double _ _ = NaN"

definition inverse_double :: "double \<Rightarrow> double" where
  "inverse_double a = divide (Fin 1) a"

fun less_double :: "double \<Rightarrow> double \<Rightarrow> bool" where
  "less_double (Fin a) (Fin b) = (a < b)"
| "less_double NegInf (Fin b) = True"
| "less_double NegInf PosInf = True"
| "less_double (Fin a) PosInf = True"
| "less_double _ _ = False"

definition less_eq_double :: "double \<Rightarrow> double \<Rightarrow> bool" where
  "less_eq_double a b = (a < b \<or> (a \<noteq> NaN \<and> a = b))"

instance ..

end

text \<open>\<open>a == b\<close> on doubles: NaN is not equal to itself.\<close>

definition deq :: "double \<Rightarrow> double \<Rightarrow> bool" where
  "deq a b = (a \<noteq> NaN \<and> a = b)"

text \<open>\<open>std::max(a, b)\<close> is \<open>(a < b) ? b : a\<close> and \<open>std::min(a, b)\<close> is \<open>(b < a) ? b : a\<close>.\<close>

definition std_max :: "double \<Rightarrow> double \<Rightarrow> double" where
  "std_max a b = (if a < b then b else a)"

definition std_min :: "double \<Rightarrow> double \<Rightarrow> double" where
  "std_min a b = (if b < a then b else a)"

subsection \<open>State: heap of vectors, random source, trace\<close>

type_synonym addr = nat

type_synonym vec = "double list"

type_synonym logdensity = "vec \<Rightarrow> vec \<Rightarrow> double"

datatype site = Initial | StepLeft | StepRight | Shrinkage

text \<open>
  Observations.
  \<^item> \<open>Eval site j point params x\<close>: the log-density is called on \<open>point\<close> and \<open>params\<close>
    at \<open>site\<close>, during the update of coordinate \<open>j\<close> (\<open>0\<close> for the initial call), while
    the working position \<open>x\<close> has the given contents;
  \<^item> \<open>Draw j r0 r1 x\<close>: an iteration of the shrinkage loop for coordinate \<open>j\<close> starts with
    the interval \<open>[r0, r1]\<close>;
  \<^item> \<open>Reject j r0 r1 r0' r1'\<close>: a draw was rejected and the interval \<open>[r0, r1]\<close> became
    \<open>[r0', r1']\<close>;
  \<^item> \<open>Accept j xs logys logz\<close>: the loop is left by \<open>break\<close> with the vector \<open>xs\<close>, its
    log-density \<open>logys\<close> and the threshold \<open>logz\<close>.
\<close>

datatype event =
    Eval site nat vec vec vec
  | Draw nat double double vec
  | Reject nat double double double double
  | Accept nat vec double double

record state =
  heap :: "addr \<Rightarrow> vec"
  next_addr :: addr
  draws :: nat
  trace :: "event list"

text \<open>
  How a run ends: normally with a result, with a loop out of fuel, or with no defined
  result (\<open>Fault\<close>: a read outside a vector, or a library conversion that fails). The
  engine itself never faults; the drivers can.
\<close>

datatype 'a outcome = Done 'a state | OutOfFuel state | Fault state

fun final_state :: "'a outcome \<Rightarrow> state" where
  "final_state (Done a s) = s"
| "final_state (OutOfFuel s) = s"
| "final_state (Fault s) = s"

fun bind :: "'a outcome \<Rightarrow> ('a \<Rightarrow> state \<Rightarrow> 'b outcome) \<Rightarrow> 'b outcome" where
  "bind (Done a s) f = f a s"
| "bind (OutOfFuel s) f = OutOfFuel s"
| "bind (Fault s) f = Fault s"

definition log_event :: "event \<Rightarrow> state \<Rightarrow> state" where
  "log_event e s = s\<lparr>trace := trace s @ [e]\<rparr>"

text \<open>\<open>clone(v)\<close>: a new vector with the contents of \<open>v\<close>.\<close>

definition clone :: "addr \<Rightarrow> state \<Rightarrow> addr \<times> state" where
  "clone a s =
     (next_addr s, s\<lparr>heap := (heap s)(next_addr s := heap s a), next_addr := Suc (next_addr s)\<rparr>)"

text \<open>\<open>NumericVector::create(...)\<close>: a new vector with the given contents.\<close>

definition create :: "vec \<Rightarrow> state \<Rightarrow> addr \<times> state" where
  "create v s =
     (next_addr s, s\<lparr>heap := (heap s)(next_addr s := v), next_addr := Suc (next_addr s)\<rparr>)"

text \<open>
  \<open>v[j] = d\<close>. Rcpp does not check the index; the engine only uses indices below
  \<open>x0.size()\<close> on vectors cloned from \<open>x0\<close>, and the drivers write \<open>out[i]\<close> with
  \<open>i < out.size()\<close>.
\<close>

definition store :: "addr \<Rightarrow> nat \<Rightarrow> double \<Rightarrow> state \<Rightarrow> state" where
  "store a j d s = s\<lparr>heap := (heap s)(a := (heap s a)[j := d])\<rparr>"

subsection \<open>Random source\<close>

text \<open>
  Modelled from the spec: the draws the spec writes \<open>Exponential(1)\<close>, \<open>Uniform(0, width)\<close>
  and \<open>Uniform(r0, r1)\<close> are the calls \<open>rexp(1)\<close>, \<open>runif(1)\<close> and \<open>runif(1, r0, r1)\<close>
  into the Rcpp library, whose code is not part of the repository. The entropy is a
  parameter: \<open>unif_rand\<close> is the stream of unit uniforms and \<open>exp_rand\<close> the stream of
  unit exponentials (R's generators of the same names); the \<open>n\<close>-th variate drawn in
  a run is read at index \<open>n\<close>. Rcpp's \<open>runif(1, a, b)\<close> returns NaN without drawing when
  a bound is not finite or \<open>b < a\<close>, returns \<open>a\<close> without drawing when \<open>a == b\<close>, and
  \<open>a + (b - a) * u\<close> for a unit uniform \<open>u\<close> otherwise.
\<close>

record entropy =
  unif_rand :: "nat \<Rightarrow> real"
  exp_rand :: "nat \<Rightarrow> real"

definition rexp :: "entropy \<Rightarrow> state \<Rightarrow> double \<times> state" where
  "rexp ent s = (Fin (exp_rand ent (draws s)), s\<lparr>draws := Suc (draws s)\<rparr>)"

definition runif_unit :: "entropy \<Rightarrow> state \<Rightarrow> double \<times> state" where
  "runif_unit ent s = (Fin (unif_rand ent (draws s)), s\<lparr>draws := Suc (draws s)\<rparr>)"

definition runif :: "entropy \<Rightarrow> double \<Rightarrow> double \<Rightarrow> state \<Rightarrow> double \<times> state" where
  "runif ent a b s =
     (if \<not> R_FINITE a \<or> \<not> R_FINITE b \<or> b < a then (NaN, s)
      else if deq a b then (a, s)
      else (a + (b - a) * Fin (unif_rand ent (draws s)),
            s\<lparr>draws := Suc (draws s)\<rparr>))"

subsection \<open>The engine\<close>

text \<open>
  \<open>while ( L[j] > lower && logfn(L, params) > logz ) L[j] = L[j] - w;\<close>

  \<open>Lh\<close>, \<open>ph\<close> and \<open>xh\<close> are the handles of \<open>L\<close>, \<open>params\<close> and \<open>x\<close>. The second
  conjunct is evaluated only when the first holds.
\<close>

fun expand_left ::
  "nat \<Rightarrow> logdensity \<Rightarrow> addr \<Rightarrow> double \<Rightarrow> double \<Rightarrow> double \<Rightarrow> nat \<Rightarrow> addr \<Rightarrow> addr \<Rightarrow> state
    \<Rightarrow> unit outcome" where
  "expand_left fuel logfn ph w lower logz j Lh xh s =
     (if lower < heap s Lh ! j then
        (let s1 = log_event (Eval StepLeft j (heap s Lh) (heap s ph) (heap s xh)) s in
         if logz < logfn (heap s Lh) (heap s ph) then
           (case fuel of
              0 \<Rightarrow> OutOfFuel s1
            | Suc n \<Rightarrow>
                expand_left n logfn ph w lower logz j Lh xh
                  (store Lh j (heap s1 Lh ! j - w) s1))
         else Done () s1)
      else Done () s)"

text \<open>\<open>while ( R[j] < upper && logfn(R, params) > logz ) R[j] = R[j] + w;\<close>\<close>

fun expand_right ::
  "nat \<Rightarrow> logdensity \<Rightarrow> addr \<Rightarrow> double \<Rightarrow> double \<Rightarrow> double \<Rightarrow> nat \<Rightarrow> addr \<Rightarrow> addr \<Rightarrow> state
    \<Rightarrow> unit outcome" where
  "expand_right fuel logfn ph w upper logz j Rh xh s =
     (if heap s Rh ! j < upper then
        (let s1 = log_event (Eval StepRight j (heap s Rh) (heap s ph) (heap s xh)) s in
         if logz < logfn (heap s Rh) (heap s ph) then
           (case fuel of
              0 \<Rightarrow> OutOfFuel s1
            | Suc n \<Rightarrow>
                expand_right n logfn ph w upper logz j Rh xh
                  (store Rh j (heap s1 Rh ! j + w) s1))
         else Done () s1)
      else Done () s)"

text \<open>
  The shrinkage loop:
  \<^verbatim>\<open>
  do {
    xs[j] = runif(1, r0, r1)[0];
    logys = logfn(xs, params);
    if ( logys > logz ) break;
    if ( xs[j] < x[j] ) r0 = xs[j]; else r1 = xs[j];
  } while (true);
  \<close>
  The result is \<open>logys\<close> at the \<open>break\<close>.
\<close>

fun shrink ::
  "nat \<Rightarrow> logdensity \<Rightarrow> entropy \<Rightarrow> addr \<Rightarrow> double \<Rightarrow> nat \<Rightarrow> addr \<Rightarrow> addr \<Rightarrow> double \<Rightarrow> double
    \<Rightarrow> state \<Rightarrow> double outcome" where
  "shrink fuel logfn ent ph logz j xh xsh r0 r1 s =
     (let s0 = log_event (Draw j r0 r1 (heap s xh)) s;
          s2 = store xsh j (fst (runif ent r0 r1 s0)) (snd (runif ent r0 r1 s0));
          logys = logfn (heap s2 xsh) (heap s2 ph);
          s3 = log_event (Eval Shrinkage j (heap s2 xsh) (heap s2 ph) (heap s2 xh)) s2
      in if logz < logys then Done logys (log_event (Accept j (heap s3 xsh) logys logz) s3)
         else
           (let r0' = (if heap s3 xsh ! j < heap s3 xh ! j then heap s3 xsh ! j else r0);
                r1' = (if heap s3 xsh ! j < heap s3 xh ! j then r1 else heap s3 xsh ! j);
                s4 = log_event (Reject j r0 r1 r0' r1') s3
            in case fuel of
                 0 \<Rightarrow> OutOfFuel s4
               | Suc n \<Rightarrow> shrink n logfn ent ph logz j xh xsh r0' r1' s4))"

text \<open>
  One coordinate update: the body of the inner \<open>for\<close> loop. The local variables that
  live across updates are the handle of \<open>x\<close> and \<open>logy\<close>; \<open>L\<close> and \<open>R\<close> keep their
  handles for the whole call.
\<close>

definition update_coordinate ::
  "nat \<Rightarrow> logdensity \<Rightarrow> entropy \<Rightarrow> addr \<Rightarrow> double \<Rightarrow> double \<Rightarrow> double \<Rightarrow> addr \<Rightarrow> addr \<Rightarrow> nat
    \<Rightarrow> addr \<times> double \<Rightarrow> state \<Rightarrow> (addr \<times> double) outcome" where
  "update_coordinate fuel logfn ent ph w lower upper Lh Rh j xl s =
     (let xh = fst xl;
          logy = snd xl;
          logz = logy - fst (rexp ent s);
          s1 = snd (rexp ent s);
          u = fst (runif_unit ent s1) * w;
          s2 = snd (runif_unit ent s1);
          s3 = store Lh j (heap s2 xh ! j - u) s2;
          s4 = store Rh j (heap s3 xh ! j + (w - u)) s3
      in bind (expand_left fuel logfn ph w lower logz j Lh xh s4) (\<lambda>_ s5.
         bind (expand_right fuel logfn ph w upper logz j Rh xh s5) (\<lambda>_ s6.
           (let r0 = std_max (heap s6 Lh ! j) lower;
                r1 = std_min (heap s6 Rh ! j) upper;
                xsh = fst (clone xh s6);
                s7 = snd (clone xh s6)
            in bind (shrink fuel logfn ent ph logz j xh xsh r0 r1 s7) (\<lambda>logys s8.
                 Done (fst (clone xsh s8), logys) (snd (clone xsh s8)))))))"

text \<open>\<open>for (int j = 0; j < x0.size(); j++)\<close>: one sweep, over the list of coordinates.\<close>

fun sweep ::
  "nat \<Rightarrow> logdensity \<Rightarrow> entropy \<Rightarrow> addr \<Rightarrow> double \<Rightarrow> double \<Rightarrow> double \<Rightarrow> addr \<Rightarrow> addr
    \<Rightarrow> nat list \<Rightarrow> addr \<times> double \<Rightarrow> state \<Rightarrow> (addr \<times> double) outcome" where
  "sweep fuel logfn ent ph w lower upper Lh Rh [] xl s = Done xl s"
| "sweep fuel logfn ent ph w lower upper Lh Rh (j # js) xl s =
     bind (update_coordinate fuel logfn ent ph w lower upper Lh Rh j xl s)
       (sweep fuel logfn ent ph w lower upper Lh Rh js)"

text \<open>\<open>for (int i = 0; i < steps; i++)\<close>: the given number of sweeps over \<open>dimn\<close> coordinates.\<close>

fun sweeps ::
  "nat \<Rightarrow> logdensity \<Rightarrow> entropy \<Rightarrow> addr \<Rightarrow> double \<Rightarrow> double \<Rightarrow> double \<Rightarrow> addr \<Rightarrow> addr
    \<Rightarrow> nat \<Rightarrow> nat \<Rightarrow> addr \<times> double \<Rightarrow> state \<Rightarrow> (addr \<times> double) outcome" where
  "sweeps fuel logfn ent ph w lower upper Lh Rh dimn 0 xl s = Done xl s"
| "sweeps fuel logfn ent ph w lower upper Lh Rh dimn (Suc n) xl s =
     bind (sweep fuel logfn ent ph w lower upper Lh Rh [0..<dimn] xl s)
       (sweeps fuel logfn ent ph w lower upper Lh Rh dimn n)"

text \<open>
  \<open>slice_sample_cpp(logfn, params, x0, steps, w, lower, upper)\<close>. \<open>ph\<close> and \<open>x0h\<close> are
  the handles of \<open>params\<close> and \<open>x0\<close>; the result is the handle of the returned vector.
  \<open>steps\<close> is a C++ \<open>int\<close>: the outer loop runs \<open>nat steps\<close> times (not at all when
  \<open>steps \<le> 0\<close>).
\<close>

definition slice_sample_cpp ::
  "nat \<Rightarrow> logdensity \<Rightarrow> entropy \<Rightarrow> addr \<Rightarrow> addr \<Rightarrow> int \<Rightarrow> double \<Rightarrow> double \<Rightarrow> double \<Rightarrow> state
    \<Rightarrow> addr outcome" where
  "slice_sample_cpp fuel logfn ent ph x0h steps w lower upper s =
     (let xh = fst (clone x0h s);
          s1 = snd (clone x0h s);
          Lh = fst (clone x0h s1);
          s2 = snd (clone x0h s1);
          Rh = fst (clone x0h s2);
          s3 = snd (clone x0h s2);
          logy = logfn (heap s3 xh) (heap s3 ph);
          s4 = log_event (Eval Initial 0 (heap s3 xh) (heap s3 ph) (heap s3 xh)) s3
      in bind (sweeps fuel logfn ent ph w lower upper Lh Rh (length (heap s4 x0h)) (nat steps)
                 (xh, logy) s4)
           (\<lambda>xl s5. Done (fst xl) s5))"

subsection \<open>External functions\<close>

text \<open>
  The posteriors and the drivers call the C math library (\<open>log\<close>, \<open>exp\<close>, \<open>sqrt\<close>,
  \<open>lgamma\<close>) and R's \<open>Rf_pgamma(x, shape, scale, lower_tail, log_p)\<close> and
  \<open>Rf_dgamma(x, shape, scale, give_log)\<close>. None of them is part of the repository; they are
  parameters of the embedding.

  \<open>slice_sample_ma_liu\<close> passes \<open>lambda[i]\<close> and \<open>mu[i]\<close>, which are doubles, where
  \<open>slice_sample_cpp\<close> expects a \<open>NumericVector\<close>. The vector is built by a converting
  constructor of Rcpp, which is not part of the repository either: \<open>vector_from_double\<close>
  gives the contents of the vector built from a double, or \<open>None\<close> when the constructor
  fails.
\<close>

record library =
  c_log :: "double \<Rightarrow> double"
  c_exp :: "double \<Rightarrow> double"
  c_sqrt :: "double \<Rightarrow> double"
  c_lgamma :: "double \<Rightarrow> double"
  Rf_pgamma :: "double \<Rightarrow> double \<Rightarrow> double \<Rightarrow> int \<Rightarrow> int \<Rightarrow> double"
  Rf_dgamma :: "double \<Rightarrow> double \<Rightarrow> double \<Rightarrow> int \<Rightarrow> double"
  vector_from_double :: "double \<Rightarrow> vec option"

subsection \<open>Pareto/NBD (Ma/Liu)\<close>

text \<open>
  The posteriors read \<open>data[0]\<close> and fixed indices of \<open>params\<close> without a check. The
  drivers always pass a \<open>params\<close> vector long enough.
\<close>

definition post_lambda_ma_liu :: "library \<Rightarrow> logdensity" where
  "post_lambda_ma_liu lib data params =
     (let lambda' = data ! 0;
          x = params ! 0;
          tx = params ! 1;
          Tcal = params ! 2;
          mu = params ! 4;
          r = params ! 5;
          alpha = params ! 6
      in (r - Fin 1) * c_log lib lambda' - (lambda' * alpha)
         + x * c_log lib lambda' - c_log lib (lambda' + mu)
         + c_log lib (mu * c_exp lib (- tx * (lambda' + mu))
                      + lambda' * c_exp lib (- Tcal * (lambda' + mu))))"

definition post_mu_ma_liu :: "library \<Rightarrow> logdensity" where
  "post_mu_ma_liu lib data params =
     (let mu' = data ! 0;
          x = params ! 0;
          tx = params ! 1;
          Tcal = params ! 2;
          lambda = params ! 3;
          s = params ! 7;
          beta = params ! 8
      in (s - Fin 1) * c_log lib mu' - (mu' * beta)
         + x * c_log lib lambda - c_log lib (lambda + mu')
         + c_log lib (mu' * c_exp lib (- tx * (lambda + mu'))
                      + lambda * c_exp lib (- Tcal * (lambda + mu'))))"

text \<open>The arguments of \<open>slice_sample_ma_liu\<close>.\<close>

record ma_liu_args =
  ml_what :: string
  ml_x :: vec
  ml_tx :: vec
  ml_Tcal :: vec
  ml_lambda :: vec
  ml_mu :: vec
  ml_r :: double
  ml_alpha :: double
  ml_s :: double
  ml_beta :: double

text \<open>
  The body of the loop over the records, for record \<open>i\<close>. \<open>out\<close> is the vector of
  results so far. The per-record vectors are read at \<open>i\<close> without a check: a read outside
  one of them is a \<open>Fault\<close>, and so is the read of element \<open>0\<close> of an empty result.
\<close>

definition ma_liu_record ::
  "nat \<Rightarrow> library \<Rightarrow> entropy \<Rightarrow> ma_liu_args \<Rightarrow> nat \<Rightarrow> vec \<Rightarrow> state \<Rightarrow> vec outcome" where
  "ma_liu_record fuel lib ent a i out st =
     (if i < length (ml_x a) \<and> i < length (ml_tx a) \<and> i < length (ml_Tcal a)
         \<and> i < length (ml_lambda a) \<and> i < length (ml_mu a) then
        (let params = [ml_x a ! i, ml_tx a ! i, ml_Tcal a ! i, ml_lambda a ! i, ml_mu a ! i,
                       ml_r a, ml_alpha a, ml_s a, ml_beta a];
             ph = fst (create params st);
             st1 = snd (create params st)
         in if ml_what a = ''lambda'' then
              (case vector_from_double lib (ml_lambda a ! i) of
                 None \<Rightarrow> Fault st1
               | Some v \<Rightarrow>
                   bind (slice_sample_cpp fuel (post_lambda_ma_liu lib) ent ph
                           (fst (create v st1)) 3 (Fin 3 * c_sqrt lib (ml_r a) / ml_alpha a)
                           (Fin 0) PosInf (snd (create v st1)))
                     (\<lambda>rh st2. if 0 < length (heap st2 rh)
                                then Done (out[i := heap st2 rh ! 0]) st2 else Fault st2))
            else if ml_what a = ''mu'' then
              (case vector_from_double lib (ml_mu a ! i) of
                 None \<Rightarrow> Fault st1
               | Some v \<Rightarrow>
                   bind (slice_sample_cpp fuel (post_mu_ma_liu lib) ent ph
                           (fst (create v st1)) 6 (Fin 3 * c_sqrt lib (ml_s a) / ml_beta a)
                           (Fin 0) PosInf (snd (create v st1)))
                     (\<lambda>rh st2. if 0 < length (heap st2 rh)
                                then Done (out[i := heap st2 rh ! 0]) st2 else Fault st2))
            else Done out st1)
      else Fault st)"

fun ma_liu_loop ::
  "nat \<Rightarrow> library \<Rightarrow> entropy \<Rightarrow> ma_liu_args \<Rightarrow> nat list \<Rightarrow> vec \<Rightarrow> state \<Rightarrow> vec outcome" where
  "ma_liu_loop fuel lib ent a [] out st = Done out st"
| "ma_liu_loop fuel lib ent a (i # is) out st =
     bind (ma_liu_record fuel lib ent a i out st) (ma_liu_loop fuel lib ent a is)"

text \<open>
  \<open>slice_sample_ma_liu\<close>: \<open>NumericVector out(N)\<close> is a vector of \<open>N\<close> zeros, and the
  loop runs over \<open>i = 0, ..., N - 1\<close> with \<open>N = x.size()\<close>.
\<close>

definition slice_sample_ma_liu ::
  "nat \<Rightarrow> library \<Rightarrow> entropy \<Rightarrow> ma_liu_args \<Rightarrow> state \<Rightarrow> vec outcome" where
  "slice_sample_ma_liu fuel lib ent a st =
     ma_liu_loop fuel lib ent a [0..<length (ml_x a)] (replicate (length (ml_x a)) (Fin 0)) st"

subsection \<open>Pareto/CNBD\<close>

definition pcnbd_post_tau :: "library \<Rightarrow> logdensity" where
  "pcnbd_post_tau lib data params =
     (let tau' = data ! 0;
          k = params ! 4;
          lambda = params ! 5;
          mu = params ! 6;
          one_minus_F = Rf_pgamma lib tau' k (Fin 1 / (k * lambda)) 0 0;
          f = Rf_dgamma lib tau' k (Fin 1 / (k * lambda)) 0
      in - mu * tau' + c_log lib (mu * one_minus_F + f))"

definition pcnbd_post_k :: "library \<Rightarrow> logdensity" where
  "pcnbd_post_k lib data params =
     (let k' = data ! 0;
          x = params ! 0;
          tx = params ! 1;
          Tcal = params ! 2;
          litt = params ! 3;
          lambda = params ! 5;
          tau = params ! 7;
          t = params ! 8;
          gamma = params ! 9;
          log_one_minus_F =
            Rf_pgamma lib (std_min Tcal tau - tx) k' (Fin 1 / (k' * lambda)) 0 1
      in (t - Fin 1) * c_log lib k' - (k' * gamma)
         + k' * x * c_log lib (k' * lambda) - x * c_lgamma lib k' - k' * lambda * tx
         + (k' - Fin 1) * litt
         + log_one_minus_F)"

definition pcnbd_post_lambda :: "library \<Rightarrow> logdensity" where
  "pcnbd_post_lambda lib data params =
     (let lambda' = data ! 0;
          x = params ! 0;
          tx = params ! 1;
          Tcal = params ! 2;
          k = params ! 4;
          tau = params ! 7;
          r = params ! 10;
          alpha = params ! 11;
          log_one_minus_F =
            Rf_pgamma lib (std_min Tcal tau - tx) k (Fin 1 / (k * lambda')) 0 1
      in (r - Fin 1) * c_log lib lambda' - (lambda' * alpha)
         + k * x * c_log lib lambda' - k * lambda' * tx
         + log_one_minus_F)"

text \<open>The arguments of \<open>pcnbd_slice_sample\<close>.\<close>

record pcnbd_args =
  pc_what :: string
  pc_x :: vec
  pc_tx :: vec
  pc_Tcal :: vec
  pc_litt :: vec
  pc_k :: vec
  pc_lambda :: vec
  pc_mu :: vec
  pc_tau :: vec
  pc_t :: double
  pc_gamma :: double
  pc_r :: double
  pc_alpha :: double
  pc_s :: double
  pc_beta :: double

text \<open>The starting point of the \<open>tau\<close> draw for record \<open>i\<close>.\<close>

definition tau_init :: "pcnbd_args \<Rightarrow> nat \<Rightarrow> double" where
  "tau_init a i =
     (if pc_Tcal a ! i < pc_tau a ! i \<or> pc_tau a ! i < pc_tx a ! i
      then pc_tx a ! i + (pc_Tcal a ! i - pc_tx a ! i) / Fin 2
      else pc_tau a ! i)"

text \<open>The body of the loop over the records, for record \<open>i\<close>.\<close>

definition pcnbd_record ::
  "nat \<Rightarrow> library \<Rightarrow> entropy \<Rightarrow> pcnbd_args \<Rightarrow> nat \<Rightarrow> vec \<Rightarrow> state \<Rightarrow> vec outcome" where
  "pcnbd_record fuel lib ent a i out st =
     (if i < length (pc_x a) \<and> i < length (pc_tx a) \<and> i < length (pc_Tcal a)
         \<and> i < length (pc_litt a) \<and> i < length (pc_k a) \<and> i < length (pc_lambda a)
         \<and> i < length (pc_mu a) \<and> i < length (pc_tau a) then
        (let params = [pc_x a ! i, pc_tx a ! i, pc_Tcal a ! i, pc_litt a ! i,
                       pc_k a ! i, pc_lambda a ! i, pc_mu a ! i, pc_tau a ! i,
                       pc_t a, pc_gamma a, pc_r a, pc_alpha a, pc_s a, pc_beta a];
             ph = fst (create params st);
             st1 = snd (create params st)
         in if pc_what a = ''k'' then
              bind (slice_sample_cpp fuel (pcnbd_post_k lib) ent ph
                      (fst (create [pc_k a ! i] st1)) 3
                      (Fin 3 * c_sqrt lib (pc_t a) / pc_gamma a)
                      (Fin 0) PosInf (snd (create [pc_k a ! i] st1)))
                (\<lambda>rh st2. if 0 < length (heap st2 rh)
                           then Done (out[i := heap st2 rh ! 0]) st2 else Fault st2)
            else if pc_what a = ''lambda'' then
              bind (slice_sample_cpp fuel (pcnbd_post_lambda lib) ent ph
                      (fst (create [pc_lambda a ! i] st1)) 3
                      (Fin 3 * c_sqrt lib (pc_r a) / pc_alpha a)
                      (Fin 0) PosInf (snd (create [pc_lambda a ! i] st1)))
                (\<lambda>rh st2. if 0 < length (heap st2 rh)
                           then Done (out[i := heap st2 rh ! 0]) st2 else Fault st2)
            else if pc_what a = ''tau'' then
              (if Rf_pgamma lib (pc_tx a ! i) (pc_k a ! i)
                    (Fin 1 / (pc_k a ! i * pc_lambda a ! i)) 0 1 < Fin (- 100) then
                 Done (out[i := fst (runif ent (pc_tx a ! i) (pc_Tcal a ! i) st1)])
                   (snd (runif ent (pc_tx a ! i) (pc_Tcal a ! i) st1))
               else
                 bind (slice_sample_cpp fuel (pcnbd_post_tau lib) ent ph
                         (fst (create [tau_init a i] st1)) 6
                         ((pc_Tcal a ! i - pc_tx a ! i) / Fin 2)
                         (pc_tx a ! i) (pc_Tcal a ! i) (snd (create [tau_init a i] st1)))
                   (\<lambda>rh st2. if 0 < length (heap st2 rh)
                              then Done (out[i := heap st2 rh ! 0]) st2 else Fault st2))
            else Done out st1)
      else Fault st)"

fun pcnbd_loop ::
  "nat \<Rightarrow> library \<Rightarrow> entropy \<Rightarrow> pcnbd_args \<Rightarrow> nat list \<Rightarrow> vec \<Rightarrow> state \<Rightarrow> vec outcome" where
  "pcnbd_loop fuel lib ent a [] out st = Done out st"
| "pcnbd_loop fuel lib ent a (i # is) out st =
     bind (pcnbd_record fuel lib ent a i out st) (pcnbd_loop fuel lib ent a is)"

definition pcnbd_slice_sample ::
  "nat \<Rightarrow> library \<Rightarrow> entropy \<Rightarrow> pcnbd_args \<Rightarrow> state \<Rightarrow> vec outcome" where
  "pcnbd_slice_sample fuel lib ent a st =
     pcnbd_loop fuel lib ent a [0..<length (pc_x a)] (replicate (length (pc_x a)) (Fin 0)) st"

subsection \<open>Observing a run\<close>

text \<open>
  The contents of the returned vector and its handle, when the call returns, and the
  events a call adds to the trace.
\<close>

definition returned :: "addr outcome \<Rightarrow> vec option" where
  "returned out = (case out of Done rh t \<Rightarrow> Some (heap t rh) | _ \<Rightarrow> None)"

definition handle_of :: "addr outcome \<Rightarrow> addr option" where
  "handle_of out = (case out of Done rh t \<Rightarrow> Some rh | _ \<Rightarrow> None)"

definition new_events :: "state \<Rightarrow> 'a outcome \<Rightarrow> event list" where
  "new_events s out = drop (length (trace s)) (trace (final_state out))"

text \<open>
  A coordinate lies in the box: it is finite and \<open>lower <= v <= upper\<close>.
\<close>

definition in_box :: "double \<Rightarrow> double \<Rightarrow> double \<Rightarrow> bool" where
  "in_box lower upper v \<longleftrightarrow> R_FINITE v \<and> lower \<le> v \<and> v \<le> upper"




definition passes :: "vec \<Rightarrow> event \<Rightarrow> bool" where
  "passes P e = (case e of Eval _ _ _ p _ \<Rightarrow> p = P | _ \<Rightarrow> True)"

text \<open>
  A stepping-out call is made at the working position with coordinate \<open>j\<close> replaced.
\<close>

definition one_coordinate_moved :: "event \<Rightarrow> bool" where
  "one_coordinate_moved e =
     (case e of
        Eval StepLeft j pt p x \<Rightarrow> pt = x[j := pt ! j]
      | Eval StepRight j pt p x \<Rightarrow> pt = x[j := pt ! j]
      | _ \<Rightarrow> True)"

subsection \<open>Phases of a coordinate update\<close>

text \<open>
  Names for the pieces of \<open>update_coordinate\<close> and of one iteration of \<open>shrink\<close>, used
  to reason about them one at a time: the threshold \<open>logz\<close>; the state once \<open>L[j]\<close> and
  \<open>R[j]\<close> are placed around \<open>x[j]\<close>; the state of a shrinkage iteration once the draw is
  stored and the log-density called; and the part of the update after stepping out.
  Lemmas \<open>update_coordinate_unfold\<close> and \<open>shrink_unfold\<close> below show that the
  definitions above are made of exactly these pieces.
\<close>

definition threshold :: "entropy \<Rightarrow> addr \<times> double \<Rightarrow> state \<Rightarrow> double" where
  "threshold ent xl s = snd xl - fst (rexp ent s)"

definition placed ::
  "entropy \<Rightarrow> double \<Rightarrow> addr \<Rightarrow> addr \<Rightarrow> nat \<Rightarrow> addr \<times> double \<Rightarrow> state \<Rightarrow> state" where
  "placed ent w Lh Rh j xl s =
     (let s1 = snd (rexp ent s);
          u = fst (runif_unit ent s1) * w;
          s2 = snd (runif_unit ent s1);
          s3 = store Lh j (heap s2 (fst xl) ! j - u) s2
      in store Rh j (heap s3 (fst xl) ! j + (w - u)) s3)"

definition after_draw ::
  "entropy \<Rightarrow> addr \<Rightarrow> nat \<Rightarrow> addr \<Rightarrow> addr \<Rightarrow> double \<Rightarrow> double \<Rightarrow> state \<Rightarrow> state" where
  "after_draw ent ph j xh xsh r0 r1 s =
     (let s0 = log_event (Draw j r0 r1 (heap s xh)) s;
          s2 = store xsh j (fst (runif ent r0 r1 s0)) (snd (runif ent r0 r1 s0))
      in log_event (Eval Shrinkage j (heap s2 xsh) (heap s2 ph) (heap s2 xh)) s2)"

definition finish ::
  "nat \<Rightarrow> logdensity \<Rightarrow> entropy \<Rightarrow> addr \<Rightarrow> double \<Rightarrow> double \<Rightarrow> double \<Rightarrow> addr \<Rightarrow> addr \<Rightarrow> nat
    \<Rightarrow> addr \<Rightarrow> state \<Rightarrow> (addr \<times> double) outcome" where
  "finish fuel logfn ent ph lower upper logz Lh Rh j xh s6 =
     (let r0 = std_max (heap s6 Lh ! j) lower;
          r1 = std_min (heap s6 Rh ! j) upper;
          xsh = fst (clone xh s6);
          s7 = snd (clone xh s6)
      in bind (shrink fuel logfn ent ph logz j xh xsh r0 r1 s7) (\<lambda>logys s8.
           Done (fst (clone xsh s8), logys) (snd (clone xsh s8))))"

subsection \<open>Assertions\<close>

text \<open>
  \<open>ensures m I Q\<close>: the run \<open>m\<close> does not fault, the state it ends in (returned or out
  of fuel) satisfies \<open>I\<close>, and a returned result satisfies \<open>Q\<close>.
\<close>

definition ensures :: "'a outcome \<Rightarrow> (state \<Rightarrow> bool) \<Rightarrow> ('a \<Rightarrow> state \<Rightarrow> bool) \<Rightarrow> bool" where
  "ensures m I Q \<longleftrightarrow>
     I (final_state m) \<and> (\<forall>a t. m = Done a t \<longrightarrow> Q a t) \<and> (\<forall>t. m \<noteq> Fault t)"

text \<open>
  \<open>frame n0 ph s t\<close>: from \<open>s\<close> to \<open>t\<close> no vector below address \<open>n0\<close> changed, nothing
  was deallocated, and every event added passes the contents of \<open>ph\<close> as parameters.
\<close>

definition frame :: "addr \<Rightarrow> addr \<Rightarrow> state \<Rightarrow> state \<Rightarrow> bool" where
  "frame n0 ph s t \<longleftrightarrow>
     ph < n0 \<and> n0 \<le> next_addr s \<and>
     (\<forall>a<n0. heap t a = heap s a) \<and> next_addr s \<le> next_addr t \<and>
     (\<exists>es. trace t = trace s @ es \<and> list_all (passes (heap s ph)) es)"

text \<open>
  The invariant of the events of a run whose starting point lies in the box, and of the
  state between two coordinate updates.
\<close>

definition ok :: "double \<Rightarrow> double \<Rightarrow> event \<Rightarrow> bool" where
  "ok lower upper e =
     (case e of
        Eval site j pt p x \<Rightarrow> list_all (in_box lower upper) x
      | Draw j r0 r1 x \<Rightarrow>
          list_all (in_box lower upper) x \<and> r0 \<le> x ! j \<and> x ! j \<le> r1 \<and>
          R_FINITE r0 \<and> R_FINITE r1 \<and> lower \<le> r0 \<and> r1 \<le> upper
      | Reject j r0 r1 r0' r1' \<Rightarrow>
          r0 \<le> r0' \<and> r1' \<le> r1 \<and> (lower < upper \<longrightarrow> r1' - r0' < r1 - r0)
      | Accept j xs logys logz \<Rightarrow> logz < logys)"

definition run_ok :: "double \<Rightarrow> double \<Rightarrow> state \<Rightarrow> state \<Rightarrow> bool" where
  "run_ok lower upper s t \<longleftrightarrow> (\<exists>es. trace t = trace s @ es \<and> list_all (ok lower upper) es)"


subsection \<open>Concrete inputs\<close>

text \<open>
  A state with \<open>x0\<close> at address \<open>0\<close> and \<open>params\<close> at address \<open>1\<close>; a random source whose
  unit uniforms are \<open>1/2\<close> and whose unit exponentials are \<open>1\<close>; a flat log-density.
\<close>

definition two_vectors :: "vec \<Rightarrow> vec \<Rightarrow> state" where
  "two_vectors X P = \<lparr>heap = (\<lambda>_. [])(0 := X, 1 := P), next_addr = 2, draws = 0, trace = []\<rparr>"

definition halves :: entropy where
  "halves = \<lparr>unif_rand = (\<lambda>_. 1 / 2), exp_rand = (\<lambda>_. 1)\<rparr>"

definition flat :: logdensity where
  "flat x p = Fin 0"




section \<open>Lemmas\<close>

declare expand_left.simps [simp del]

declare expand_right.simps [simp del]

declare shrink.simps [simp del]

lemma log_event_fields [simp]:
  "heap (log_event e s) = heap s"
  "next_addr (log_event e s) = next_addr s"
  "draws (log_event e s) = draws s"
  "trace (log_event e s) = trace s @ [e]"
  by (simp_all add: log_event_def)

lemma store_fields [simp]:
  "heap (store a j d s) = (heap s)(a := (heap s a)[j := d])"
  "next_addr (store a j d s) = next_addr s"
  "draws (store a j d s) = draws s"
  "trace (store a j d s) = trace s"
  by (simp_all add: store_def)

lemma clone_fields [simp]:
  "fst (clone a s) = next_addr s"
  "heap (snd (clone a s)) = (heap s)(next_addr s := heap s a)"
  "next_addr (snd (clone a s)) = Suc (next_addr s)"
  "draws (snd (clone a s)) = draws s"
  "trace (snd (clone a s)) = trace s"
  by (simp_all add: clone_def)

lemma create_fields [simp]:
  "fst (create v s) = next_addr s"
  "heap (snd (create v s)) = (heap s)(next_addr s := v)"
  "next_addr (snd (create v s)) = Suc (next_addr s)"
  "draws (snd (create v s)) = draws s"
  "trace (snd (create v s)) = trace s"
  by (simp_all add: create_def)

lemma rexp_fields [simp]:
  "fst (rexp ent s) = Fin (exp_rand ent (draws s))"
  "heap (snd (rexp ent s)) = heap s"
  "next_addr (snd (rexp ent s)) = next_addr s"
  "draws (snd (rexp ent s)) = Suc (draws s)"
  "trace (snd (rexp ent s)) = trace s"
  by (simp_all add: rexp_def)

lemma runif_unit_fields [simp]:
  "fst (runif_unit ent s) = Fin (unif_rand ent (draws s))"
  "heap (snd (runif_unit ent s)) = heap s"
  "next_addr (snd (runif_unit ent s)) = next_addr s"
  "draws (snd (runif_unit ent s)) = Suc (draws s)"
  "trace (snd (runif_unit ent s)) = trace s"
  by (simp_all add: runif_unit_def)

lemma runif_fields [simp]:
  "heap (snd (runif ent a b s)) = heap s"
  "next_addr (snd (runif ent a b s)) = next_addr s"
  "trace (snd (runif ent a b s)) = trace s"
  by (simp_all add: runif_def)

lemma ensures_bind:
  assumes "ensures m I Q"
    and "\<And>a t. m = Done a t \<Longrightarrow> I t \<Longrightarrow> Q a t \<Longrightarrow> ensures (f a t) I R"
  shows "ensures (bind m f) I R"
  using assms by (cases m) (auto simp: ensures_def)

lemma ensures_Done: "I t \<Longrightarrow> Q a t \<Longrightarrow> ensures (Done a t) I Q"
  by (simp add: ensures_def)

lemma ensures_OutOfFuel: "I t \<Longrightarrow> ensures (OutOfFuel t) I Q"
  by (simp add: ensures_def)


lemma ensures_conj:
  "ensures m I Q \<Longrightarrow> J (final_state m) \<Longrightarrow> ensures m (\<lambda>t. I t \<and> J t) Q"
  by (simp add: ensures_def)

lemma ensures_bind_Done:
  assumes "ensures m I Q" and "\<And>a t. m = Done a t \<Longrightarrow> Q a t \<Longrightarrow> R (g a) t"
  shows "ensures (bind m (\<lambda>a t. Done (g a) t)) I R"
  using assms by (cases m) (auto simp: ensures_def)

lemma ensures_final: "ensures m I Q \<Longrightarrow> I (final_state m)"
  by (simp add: ensures_def)

lemma ensures_result: "ensures m I Q \<Longrightarrow> m = Done a t \<Longrightarrow> Q a t"
  by (simp add: ensures_def)

lemma ensures_no_fault: "ensures m I Q \<Longrightarrow> m \<noteq> Fault t"
  by (simp add: ensures_def)

lemma frame_refl: "ph < n0 \<Longrightarrow> n0 \<le> next_addr s \<Longrightarrow> frame n0 ph s s"
  by (simp add: frame_def)

lemma frame_log_event:
  "frame n0 ph s t \<Longrightarrow> passes (heap t ph) e \<Longrightarrow> frame n0 ph s (log_event e t)"
  by (auto simp: frame_def)

lemma frame_store: "frame n0 ph s t \<Longrightarrow> n0 \<le> a \<Longrightarrow> frame n0 ph s (store a j d t)"
  by (auto simp: frame_def)

lemma frame_clone: "frame n0 ph s t \<Longrightarrow> frame n0 ph s (snd (clone a t))"
  by (auto simp: frame_def)

lemma frame_create: "frame n0 ph s t \<Longrightarrow> frame n0 ph s (snd (create v t))"
  by (auto simp: frame_def)

lemma frame_rexp: "frame n0 ph s t \<Longrightarrow> frame n0 ph s (snd (rexp ent t))"
  by (auto simp: frame_def)

lemma frame_runif_unit: "frame n0 ph s t \<Longrightarrow> frame n0 ph s (snd (runif_unit ent t))"
  by (auto simp: frame_def)

lemma frame_runif: "frame n0 ph s t \<Longrightarrow> frame n0 ph s (snd (runif ent a b t))"
  by (auto simp: frame_def)

lemmas frame_steps =
  frame_log_event frame_store frame_clone frame_rexp frame_runif_unit frame_runif

lemma frame_trace: "frame n0 ph s t \<Longrightarrow> \<exists>es. trace t = trace s @ es"
  by (auto simp: frame_def)

lemma frame_next: "frame n0 ph s t \<Longrightarrow> n0 \<le> next_addr t"
  by (simp add: frame_def)

lemma frame_expand_left:
  "frame n0 ph s t \<Longrightarrow> n0 \<le> Lh \<Longrightarrow> length (heap t xh) = D \<Longrightarrow>
   ensures (expand_left fuel logfn ph w lower logz j Lh xh t) (frame n0 ph s)
     (\<lambda>_ t'. length (heap t' xh) = D)"
proof (induction fuel arbitrary: t)
  case 0
  then show ?case
    by (subst expand_left.simps) (simp add: Let_def frame_steps passes_def ensures_def)
next
  case (Suc n)
  have "ensures (expand_left n logfn ph w lower logz j Lh xh
          (store Lh j (heap t Lh ! j - w)
             (log_event (Eval StepLeft j (heap t Lh) (heap t ph) (heap t xh)) t)))
        (frame n0 ph s) (\<lambda>_ t'. length (heap t' xh) = D)"
    using Suc.prems by (intro Suc.IH) (auto simp: frame_steps passes_def)
  then show ?case
    using Suc.prems
    by (subst expand_left.simps) (simp add: Let_def frame_steps passes_def ensures_def)
qed

lemma frame_expand_right:
  "frame n0 ph s t \<Longrightarrow> n0 \<le> Rh \<Longrightarrow> length (heap t xh) = D \<Longrightarrow>
   ensures (expand_right fuel logfn ph w upper logz j Rh xh t) (frame n0 ph s)
     (\<lambda>_ t'. length (heap t' xh) = D)"
proof (induction fuel arbitrary: t)
  case 0
  then show ?case
    by (subst expand_right.simps) (simp add: Let_def frame_steps passes_def ensures_def)
next
  case (Suc n)
  have "ensures (expand_right n logfn ph w upper logz j Rh xh
          (store Rh j (heap t Rh ! j + w)
             (log_event (Eval StepRight j (heap t Rh) (heap t ph) (heap t xh)) t)))
        (frame n0 ph s) (\<lambda>_ t'. length (heap t' xh) = D)"
    using Suc.prems by (intro Suc.IH) (auto simp: frame_steps passes_def)
  then show ?case
    using Suc.prems
    by (subst expand_right.simps) (simp add: Let_def frame_steps passes_def ensures_def)
qed

lemma Fin_le [simp]: "Fin a \<le> Fin b \<longleftrightarrow> a \<le> b"
  by (auto simp: less_eq_double_def)

lemma Fin_minus [simp]: "Fin a - Fin b = Fin (a - b)"
  by (simp add: minus_double_def)

lemma R_FINITE_simps [simp]:
  "R_FINITE (Fin a)" "\<not> R_FINITE NaN" "\<not> R_FINITE NegInf" "\<not> R_FINITE PosInf"
  by (simp_all add: R_FINITE_def)


lemma deq_Fin [simp]: "deq (Fin a) (Fin b) \<longleftrightarrow> a = b"
  by (simp add: deq_def)





lemma run_ok_steps [simp]:
  "run_ok lower upper s (store a j d t) = run_ok lower upper s t"
  "run_ok lower upper s (snd (clone a t)) = run_ok lower upper s t"
  "run_ok lower upper s (snd (rexp ent t)) = run_ok lower upper s t"
  "run_ok lower upper s (snd (runif_unit ent t)) = run_ok lower upper s t"
  "run_ok lower upper s (snd (runif ent r0 r1 t)) = run_ok lower upper s t"
  by (simp_all add: run_ok_def)






lemma shrink_unfold:
  "shrink fuel logfn ent ph logz j xh xsh r0 r1 s =
     (let s3 = after_draw ent ph j xh xsh r0 r1 s;
          logys = logfn (heap s3 xsh) (heap s3 ph)
      in if logz < logys then Done logys (log_event (Accept j (heap s3 xsh) logys logz) s3)
         else
           (let r0' = (if heap s3 xsh ! j < heap s3 xh ! j then heap s3 xsh ! j else r0);
                r1' = (if heap s3 xsh ! j < heap s3 xh ! j then r1 else heap s3 xsh ! j);
                s4 = log_event (Reject j r0 r1 r0' r1') s3
            in case fuel of
                 0 \<Rightarrow> OutOfFuel s4
               | Suc n \<Rightarrow> shrink n logfn ent ph logz j xh xsh r0' r1' s4))"
  by (subst shrink.simps) (simp only: after_draw_def Let_def log_event_fields)



lemma update_coordinate_unfold:
  "update_coordinate fuel logfn ent ph w lower upper Lh Rh j xl s =
     bind (expand_left fuel logfn ph w lower (threshold ent xl s) j Lh (fst xl)
             (placed ent w Lh Rh j xl s)) (\<lambda>_ s5.
     bind (expand_right fuel logfn ph w upper (threshold ent xl s) j Rh (fst xl) s5) (\<lambda>_ s6.
       finish fuel logfn ent ph lower upper (threshold ent xl s) Lh Rh j (fst xl) s6))"
  by (simp only: update_coordinate_def threshold_def placed_def finish_def Let_def)









lemma frame_after_draw:
  "frame n0 ph s t \<Longrightarrow> n0 \<le> xsh \<Longrightarrow> frame n0 ph s (after_draw ent ph j xh xsh r0 r1 t)"
  by (simp add: after_draw_def Let_def frame_steps passes_def)

lemma after_draw_length:
  "length (heap (after_draw ent ph j xh xsh r0 r1 t) a) = length (heap t a)"
  by (simp add: after_draw_def Let_def)

lemma frame_shrink:
  "frame n0 ph s t \<Longrightarrow> n0 \<le> xsh \<Longrightarrow> length (heap t xsh) = D \<Longrightarrow>
   ensures (shrink fuel logfn ent ph logz j xh xsh r0 r1 t) (frame n0 ph s)
     (\<lambda>_ t'. length (heap t' xsh) = D)"
proof (induction fuel arbitrary: t r0 r1)
  case 0
  then show ?case
    by (subst shrink_unfold)
      (simp add: Let_def frame_steps frame_after_draw after_draw_length passes_def ensures_def)
next
  case (Suc n)
  have "\<And>a b c d. ensures (shrink n logfn ent ph logz j xh xsh a b
           (log_event (Reject j r0 r1 c d) (after_draw ent ph j xh xsh r0 r1 t)))
        (frame n0 ph s) (\<lambda>_ t'. length (heap t' xsh) = D)"
    using Suc.prems
    by (intro Suc.IH) (simp_all add: frame_steps frame_after_draw after_draw_length passes_def)
  then show ?case
    using Suc.prems
    by (subst shrink_unfold)
      (simp add: Let_def frame_steps frame_after_draw after_draw_length passes_def ensures_def)
qed

lemma frame_placed:
  "frame n0 ph s t \<Longrightarrow> n0 \<le> Lh \<Longrightarrow> n0 \<le> Rh \<Longrightarrow> frame n0 ph s (placed ent w Lh Rh j xl t)"
  by (simp add: placed_def Let_def frame_steps)

lemma placed_length: "length (heap (placed ent w Lh Rh j xl t) a) = length (heap t a)"
  by (simp add: placed_def Let_def)

lemma frame_finish:
  assumes "frame n0 ph s t" and "length (heap t xh) = D"
  shows "ensures (finish fuel logfn ent ph lower upper logz Lh Rh j xh t) (frame n0 ph s)
           (\<lambda>xl' t'. n0 \<le> fst xl' \<and> fst xl' < next_addr t' \<and> length (heap t' (fst xl')) = D)"
  unfolding finish_def Let_def
proof (rule ensures_bind)
  show "ensures (shrink fuel logfn ent ph logz j xh (fst (clone xh t))
          (std_max (heap t Lh ! j) lower) (std_min (heap t Rh ! j) upper) (snd (clone xh t)))
        (frame n0 ph s) (\<lambda>_ t'. length (heap t' (fst (clone xh t))) = D)"
    using assms by (intro frame_shrink) (simp_all add: frame_steps frame_next)
next
  fix logys s8
  assume "frame n0 ph s s8" and "length (heap s8 (fst (clone xh t))) = D"
  then show "ensures (Done (fst (clone (fst (clone xh t)) s8), logys)
                (snd (clone (fst (clone xh t)) s8)))
        (frame n0 ph s)
        (\<lambda>xl' t'. n0 \<le> fst xl' \<and> fst xl' < next_addr t' \<and> length (heap t' (fst xl')) = D)"
    by (intro ensures_Done) (simp_all add: frame_steps frame_next)
qed

lemma frame_update_coordinate:
  assumes "frame n0 ph s t" "n0 \<le> Lh" "n0 \<le> Rh" "length (heap t (fst xl)) = D"
  shows "ensures (update_coordinate fuel logfn ent ph w lower upper Lh Rh j xl t)
           (frame n0 ph s)
           (\<lambda>xl' t'. n0 \<le> fst xl' \<and> fst xl' < next_addr t' \<and> length (heap t' (fst xl')) = D)"
  unfolding update_coordinate_unfold
proof (rule ensures_bind)
  show "ensures (expand_left fuel logfn ph w lower (threshold ent xl t) j Lh (fst xl)
           (placed ent w Lh Rh j xl t)) (frame n0 ph s) (\<lambda>_ t'. length (heap t' (fst xl)) = D)"
    using assms by (intro frame_expand_left frame_placed) (simp_all add: placed_length)
next
  fix a5 s5
  assume s5: "frame n0 ph s s5" "length (heap s5 (fst xl)) = D"
  show "ensures (bind (expand_right fuel logfn ph w upper (threshold ent xl t) j Rh (fst xl) s5)
           (\<lambda>_ s6. finish fuel logfn ent ph lower upper (threshold ent xl t) Lh Rh j (fst xl) s6))
         (frame n0 ph s)
         (\<lambda>xl' t'. n0 \<le> fst xl' \<and> fst xl' < next_addr t' \<and> length (heap t' (fst xl')) = D)"
  proof (rule ensures_bind)
    show "ensures (expand_right fuel logfn ph w upper (threshold ent xl t) j Rh (fst xl) s5)
            (frame n0 ph s) (\<lambda>_ t'. length (heap t' (fst xl)) = D)"
      using assms s5 by (intro frame_expand_right)
  next
    fix a6 s6
    assume "frame n0 ph s s6" "length (heap s6 (fst xl)) = D"
    then show "ensures
        (finish fuel logfn ent ph lower upper (threshold ent xl t) Lh Rh j (fst xl) s6)
        (frame n0 ph s)
        (\<lambda>xl' t'. n0 \<le> fst xl' \<and> fst xl' < next_addr t' \<and> length (heap t' (fst xl')) = D)"
      by (rule frame_finish)
  qed
qed

lemma frame_sweep:
  assumes "n0 \<le> Lh" "n0 \<le> Rh"
  shows "frame n0 ph s t \<Longrightarrow> n0 \<le> fst xl \<Longrightarrow> fst xl < next_addr t \<Longrightarrow>
     length (heap t (fst xl)) = D \<Longrightarrow>
     ensures (sweep fuel logfn ent ph w lower upper Lh Rh js xl t) (frame n0 ph s)
       (\<lambda>xl' t'. n0 \<le> fst xl' \<and> fst xl' < next_addr t' \<and> length (heap t' (fst xl')) = D)"
proof (induction js arbitrary: xl t)
  case Nil
  then show ?case by (simp add: ensures_def)
next
  case (Cons j js)
  have "ensures (update_coordinate fuel logfn ent ph w lower upper Lh Rh j xl t)
           (frame n0 ph s)
           (\<lambda>xl' t'. n0 \<le> fst xl' \<and> fst xl' < next_addr t' \<and> length (heap t' (fst xl')) = D)"
    using Cons.prems assms by (intro frame_update_coordinate)
  then show ?case
    by (simp, intro ensures_bind [where Q = "\<lambda>xl' t'. n0 \<le> fst xl' \<and> fst xl' < next_addr t'
        \<and> length (heap t' (fst xl')) = D"] Cons.IH) simp_all
qed

lemma frame_sweeps:
  assumes "n0 \<le> Lh" "n0 \<le> Rh"
  shows "frame n0 ph s t \<Longrightarrow> n0 \<le> fst xl \<Longrightarrow> fst xl < next_addr t \<Longrightarrow>
     length (heap t (fst xl)) = D \<Longrightarrow>
     ensures (sweeps fuel logfn ent ph w lower upper Lh Rh K n xl t) (frame n0 ph s)
       (\<lambda>xl' t'. n0 \<le> fst xl' \<and> fst xl' < next_addr t' \<and> length (heap t' (fst xl')) = D)"
proof (induction n arbitrary: xl t)
  case 0
  then show ?case by (simp add: ensures_def)
next
  case (Suc n)
  have "ensures (sweep fuel logfn ent ph w lower upper Lh Rh [0..<K] xl t)
           (frame n0 ph s)
           (\<lambda>xl' t'. n0 \<le> fst xl' \<and> fst xl' < next_addr t' \<and> length (heap t' (fst xl')) = D)"
    using Suc.prems assms by (intro frame_sweep)
  then show ?case
    by (simp, intro ensures_bind [where Q = "\<lambda>xl' t'. n0 \<le> fst xl' \<and> fst xl' < next_addr t'
        \<and> length (heap t' (fst xl')) = D"] Suc.IH) simp_all
qed

text \<open>
  The frame of a whole call: besides the frame, the call's trace starts with the initial
  evaluation at the contents of \<open>x0\<close>, and the result has as many coordinates as \<open>x0\<close>.
\<close>

lemma frame_engine:
  assumes ph: "ph < next_addr s"
  shows "ensures (slice_sample_cpp fuel logfn ent ph x0h steps w lower upper s)
           (\<lambda>t. frame (next_addr s) ph s t \<and>
                (\<exists>es. trace t = trace s @
                   Eval Initial 0 (heap s x0h) (heap s ph) (heap s x0h) # es))
           (\<lambda>rh t. next_addr s \<le> rh \<and> rh < next_addr t \<and>
                    length (heap t rh) = length (heap s x0h))"
proof -
  let ?xh = "fst (clone x0h s)"
  let ?s1 = "snd (clone x0h s)"
  let ?Lh = "fst (clone x0h ?s1)"
  let ?s2 = "snd (clone x0h ?s1)"
  let ?Rh = "fst (clone x0h ?s2)"
  let ?s3 = "snd (clone x0h ?s2)"
  let ?logy = "logfn (heap ?s3 ?xh) (heap ?s3 ph)"
  let ?s4 = "log_event (Eval Initial 0 (heap ?s3 ?xh) (heap ?s3 ph) (heap ?s3 ?xh)) ?s3"
  let ?D = "length (heap ?s4 x0h)"
  let ?Q = "\<lambda>xl' t'. next_addr s \<le> fst xl' \<and> fst xl' < next_addr t' \<and>
              length (heap t' (fst xl')) = length (heap s x0h)"
  let ?sw = "sweeps fuel logfn ent ph w lower upper ?Lh ?Rh ?D (nat steps) (?xh, ?logy) ?s4"
  have h: "heap ?s3 ?xh = heap s x0h" "heap ?s3 ph = heap s ph"
    using ph by simp_all
  have t4: "trace ?s4 = trace s @ [Eval Initial 0 (heap s x0h) (heap s ph) (heap s x0h)]"
    using ph by simp
  have f4: "frame (next_addr s) ph s ?s4"
    using ph by (intro frame_steps frame_refl) (simp_all add: passes_def)
  have sw: "ensures ?sw (frame (next_addr s) ph s) ?Q"
    using f4 by (intro frame_sweeps) simp_all
  have sw4: "ensures ?sw (frame (next_addr s) ph ?s4) ?Q"
    using ph by (intro frame_sweeps frame_refl) simp_all
  have "\<exists>es. trace (final_state ?sw) = trace ?s4 @ es"
    using ensures_final [OF sw4] by (rule frame_trace)
  then obtain es where "trace (final_state ?sw) = trace ?s4 @ es" ..
  then have "trace (final_state ?sw) = trace s @
      Eval Initial 0 (heap s x0h) (heap s ph) (heap s x0h) # es"
    by (simp only: t4 append_assoc append.simps)
  then have first: "\<exists>es. trace (final_state ?sw) = trace s @
      Eval Initial 0 (heap s x0h) (heap s ph) (heap s x0h) # es" ..
  have "ensures ?sw
      (\<lambda>t. frame (next_addr s) ph s t \<and>
           (\<exists>es. trace t = trace s @ Eval Initial 0 (heap s x0h) (heap s ph) (heap s x0h) # es))
      ?Q"
    using sw first by (rule ensures_conj)
  then have "ensures (bind ?sw (\<lambda>xl s5. Done (fst xl) s5))
      (\<lambda>t. frame (next_addr s) ph s t \<and>
           (\<exists>es. trace t = trace s @ Eval Initial 0 (heap s x0h) (heap s ph) (heap s x0h) # es))
      (\<lambda>rh t. next_addr s \<le> rh \<and> rh < next_addr t \<and>
               length (heap t rh) = length (heap s x0h))"
    by (rule ensures_bind_Done)
  then show ?thesis
    by (simp only: slice_sample_cpp_def Let_def)
qed






text \<open>Evaluation of concrete runs.\<close>

lemmas run_defs =
  slice_sample_cpp_def update_coordinate_def clone_def log_event_def store_def
  rexp_def runif_unit_def runif_def minus_double_def std_max_def std_min_def
  R_FINITE_def deq_def Let_def expand_left.simps expand_right.simps shrink.simps



section \<open>Claims\<close>

text \<open>
  C5. With \<open>steps = 0\<close> the call makes no sweep: it returns a new vector with the
  contents of \<open>x0\<close>, draws no random number, and its only observable action is the initial
  evaluation of the log-density at \<open>x0\<close>. This holds for every log-density, \<open>params\<close>,
  \<open>x0\<close>, width and bounds.
\<close>

theorem steps_zero_returns_x0:
  "\<exists>t p. slice_sample_cpp fuel logfn ent ph x0h 0 w lower upper s = Done (next_addr s) t \<and>
         heap t (next_addr s) = heap s x0h \<and> draws t = draws s \<and>
         trace t = trace s @ [Eval Initial 0 (heap s x0h) p (heap s x0h)]"
  by (simp add: slice_sample_cpp_def Let_def)

theorem steps_zero_returns_x0_witness:
  "returned (slice_sample_cpp 0 flat halves 1 0 0 (Fin 1) NegInf PosInf
      (two_vectors [Fin 3, Fin 4] [])) = Some [Fin 3, Fin 4]"
  using steps_zero_returns_x0 [of 0 flat halves 1 0 "Fin 1" NegInf PosInf
      "two_vectors [Fin 3, Fin 4] []"]
  by (auto simp: returned_def two_vectors_def)

text \<open>
  C10. A call never modifies its arguments: when \<open>x0\<close> and \<open>params\<close> are vectors that
  exist before the call, their contents are the same in every state the call ends in
  (returned or out of fuel), every call of the log-density receives the contents of
  \<open>params\<close>, and the returned handle is an address that was not allocated before the call,
  so the result is a new vector, distinct from \<open>x0\<close>.
\<close>

theorem arguments_unmodified:
  assumes "x0h < next_addr s" and "ph < next_addr s"
  shows "(let out = slice_sample_cpp fuel logfn ent ph x0h steps w lower upper s in
           heap (final_state out) x0h = heap s x0h \<and>
           heap (final_state out) ph = heap s ph \<and>
           list_all (passes (heap s ph)) (new_events s out) \<and>
           (case handle_of out of
              Some rh \<Rightarrow> rh \<noteq> x0h \<and> next_addr s \<le> rh \<and> rh < next_addr (final_state out)
            | None \<Rightarrow> True))"
proof -
  let ?out = "slice_sample_cpp fuel logfn ent ph x0h steps w lower upper s"
  note e = frame_engine [OF assms(2), of fuel logfn ent x0h steps w lower upper]
  have f: "frame (next_addr s) ph s (final_state ?out)"
    using ensures_final [OF e] by simp
  have "heap (final_state ?out) x0h = heap s x0h" "heap (final_state ?out) ph = heap s ph"
    using f assms by (simp_all add: frame_def)
  moreover have "list_all (passes (heap s ph)) (new_events s ?out)"
    using f by (auto simp: frame_def new_events_def)
  moreover have "case handle_of ?out of
              Some rh \<Rightarrow> rh \<noteq> x0h \<and> next_addr s \<le> rh \<and> rh < next_addr (final_state ?out)
            | None \<Rightarrow> True"
    using e assms by (cases ?out) (auto simp: ensures_def handle_of_def)
  ultimately show ?thesis by (simp add: Let_def)
qed

theorem arguments_unmodified_witness:
  "heap (final_state (slice_sample_cpp 1 flat halves 1 0 1 (Fin 1) (Fin (- 1)) (Fin 1)
      (two_vectors [Fin 0, Fin 0] [Fin 7]))) 0 = [Fin 0, Fin 0] \<and>
   heap (final_state (slice_sample_cpp 1 flat halves 1 0 1 (Fin 1) (Fin (- 1)) (Fin 1)
      (two_vectors [Fin 0, Fin 0] [Fin 7]))) 1 = [Fin 7] \<and>
   handle_of (slice_sample_cpp 1 flat halves 1 0 1 (Fin 1) (Fin (- 1)) (Fin 1)
      (two_vectors [Fin 0, Fin 0] [Fin 7])) = Some 8"
proof -
  have run: "handle_of (slice_sample_cpp 1 flat halves 1 0 1 (Fin 1) (Fin (- 1)) (Fin 1)
      (two_vectors [Fin 0, Fin 0] [Fin 7])) = Some 8"
    by (simp add: slice_sample_cpp_def two_vectors_def halves_def flat_def clone_def
        log_event_def update_coordinate_def rexp_def runif_unit_def runif_def store_def
        minus_double_def std_max_def std_min_def R_FINITE_def deq_def handle_of_def Let_def
        expand_left.simps expand_right.simps shrink.simps)
  have "(0::nat) < next_addr (two_vectors [Fin 0, Fin 0] [Fin 7])"
    "(1::nat) < next_addr (two_vectors [Fin 0, Fin 0] [Fin 7])"
    by (simp_all add: two_vectors_def)
  from arguments_unmodified [OF this, of 1 flat halves 1 "Fin 1" "Fin (- 1)" "Fin 1"] run
  show ?thesis
    by (simp add: Let_def two_vectors_def)
qed







text \<open>
  C1. The claim fails on the code. \<open>L\<close> and \<open>R\<close> are cloned from \<open>x0\<close> once, and only
  their coordinate \<open>j\<close> is written in the update of coordinate \<open>j\<close>; their other
  coordinates are never set to the accepted values of \<open>x\<close>. In a run over two coordinates
  with a flat log-density, bounds \<open>[-1, 1]\<close> and width \<open>1\<close>, the first stepping-out call for
  coordinate \<open>1\<close> is made at \<open>(-3/2, -1/2)\<close> while the working position is \<open>(0, 0)\<close>:
  coordinate \<open>0\<close> of the point is the left end that the stepping-out of coordinate \<open>0\<close>
  left behind, and lies outside the bounds.
\<close>

theorem stepping_out_at_stale_position:
  "new_events (two_vectors [Fin 0, Fin 0] [])
     (slice_sample_cpp 1 flat halves 1 0 1 (Fin 1) (Fin (- 1)) (Fin 1)
        (two_vectors [Fin 0, Fin 0] [])) ! 6
     = Eval StepLeft 1 [Fin (- (3 / 2)), Fin (- (1 / 2))] [] [Fin 0, Fin 0] \<and>
   \<not> list_all one_coordinate_moved
     (new_events (two_vectors [Fin 0, Fin 0] [])
        (slice_sample_cpp 1 flat halves 1 0 1 (Fin 1) (Fin (- 1)) (Fin 1)
           (two_vectors [Fin 0, Fin 0] [])))"
  by (simp add: run_defs two_vectors_def halves_def flat_def new_events_def
      one_coordinate_moved_def)

end
